theory Spec2Isabelle
  imports Main "HOL-Library.Word"
begin

section \<open>Package ratelimits: the TAT source and its in-memory implementation\<close>

subsection \<open>Values of the standard library that the store handles\<close>

text \<open>
  \<^verbatim>\<open>time.Time\<close> is a struct of three fields (\<^verbatim>\<open>wall uint64\<close>, \<^verbatim>\<open>ext int64\<close>,
  \<^verbatim>\<open>loc *Location\<close>); the store never looks inside it. The composite literal
  \<^verbatim>\<open>time.Time{}\<close> is the value whose fields are all zero (a nil location pointer is
  \<open>None\<close>).
\<close>

record Time =
  wall :: "64 word"
  ext :: "64 word"
  loc :: "nat option"

definition zero_Time :: Time where
  "zero_Time = \<lparr>wall = 0, ext = 0, loc = None\<rparr>"

text \<open>
  Go's \<^verbatim>\<open>error\<close> values that can occur around the store: the package's own sentinel
  \<^verbatim>\<open>ErrBucketNotFound\<close> (source line 11), and the two errors a \<^verbatim>\<open>context.Context\<close>
  reports once it is cancelled or past its deadline. A nil error is \<open>None\<close>.
\<close>

datatype error = ErrBucketNotFound | context_Canceled | context_DeadlineExceeded

fun Error :: "error \<Rightarrow> string" where
  "Error ErrBucketNotFound = ''bucket not found''"
| "Error context_Canceled = ''context canceled''"
| "Error context_DeadlineExceeded = ''context deadline exceeded''"

text \<open>
  A \<^verbatim>\<open>context.Context\<close> as far as cancellation goes: a live context, one that was
  cancelled, and one whose deadline has passed. \<open>Err\<close> is its \<^verbatim>\<open>Err()\<close> method.
\<close>

datatype Context = Background | Cancelled | Expired

fun Err :: "Context \<Rightarrow> error option" where
  "Err Background = None"
| "Err Cancelled = Some context_Canceled"
| "Err Expired = Some context_DeadlineExceeded"

subsection \<open>The in-memory source\<close>

text \<open>
  \<^verbatim>\<open>type inmem struct { sync.RWMutex; m map[string]time.Time }\<close>. Every method takes
  the lock on entry and releases it by \<^verbatim>\<open>defer\<close> on return, so a call that has
  returned leaves the lock free; the model describes one call run to completion and
  keeps the map only. The struct is built by \<^verbatim>\<open>newInmem\<close> alone, which allocates
  the map.
\<close>

record inmem =
  m :: "string \<rightharpoonup> Time"

definition newInmem :: inmem where
  "newInmem = \<lparr>m = Map.empty\<rparr>"

text \<open>
  Each method returns its Go result together with the store after the call. The first
  parameter is the context, which all three methods bind to the blank identifier.
\<close>

definition inmem_Set :: "Context \<Rightarrow> string \<Rightarrow> Time \<Rightarrow> inmem \<Rightarrow> error option \<times> inmem" where
  "inmem_Set _ bucketKey tat s = (None, s\<lparr>m := (m s)(bucketKey \<mapsto> tat)\<rparr>)"

definition inmem_Get :: "Context \<Rightarrow> string \<Rightarrow> inmem \<Rightarrow> (Time \<times> error option) \<times> inmem" where
  "inmem_Get _ bucketKey s =
     (case m s bucketKey of
        None \<Rightarrow> ((zero_Time, Some ErrBucketNotFound), s)
      | Some tat \<Rightarrow> ((tat, None), s))"

definition inmem_Delete :: "Context \<Rightarrow> string \<Rightarrow> inmem \<Rightarrow> error option \<times> inmem" where
  "inmem_Delete _ bucketKey s = (None, s\<lparr>m := (m s)(bucketKey := None)\<rparr>)"

subsection \<open>Sequences of calls\<close>

text \<open>
  A caller's history is a list of calls on one store. \<open>after_call\<close> is the store a call
  leaves behind, \<open>after_calls\<close> the store after a whole history, oldest call first.
  \<open>is_Set_of k\<close> recognises the calls \<^verbatim>\<open>Set(k, _)\<close>.
\<close>

datatype store_call =
  CallSet Context string Time
| CallGet Context string
| CallDelete Context string

fun after_call :: "store_call \<Rightarrow> inmem \<Rightarrow> inmem" where
  "after_call (CallSet ctx k tat) s = snd (inmem_Set ctx k tat s)"
| "after_call (CallGet ctx k) s = snd (inmem_Get ctx k s)"
| "after_call (CallDelete ctx k) s = snd (inmem_Delete ctx k s)"

fun after_calls :: "store_call list \<Rightarrow> inmem \<Rightarrow> inmem" where
  "after_calls [] s = s"
| "after_calls (c # cs) s = after_calls cs (after_call c s)"

fun is_Set_of :: "string \<Rightarrow> store_call \<Rightarrow> bool" where
  "is_Set_of k (CallSet _ k' _) = (k' = k)"
| "is_Set_of k (CallGet _ _) = False"
| "is_Set_of k (CallDelete _ _) = False"

section \<open>Package measured_http: the instrumented handler\<close>

subsection \<open>Requests, response writers and handlers\<close>

text \<open>
  The method names of \<^verbatim>\<open>net/http\<close> that the handler's switch lists.
\<close>

definition MethodGet :: string where "MethodGet = ''GET''"
definition MethodHead :: string where "MethodHead = ''HEAD''"
definition MethodPost :: string where "MethodPost = ''POST''"
definition MethodPut :: string where "MethodPut = ''PUT''"
definition MethodPatch :: string where "MethodPatch = ''PATCH''"
definition MethodDelete :: string where "MethodDelete = ''DELETE''"
definition MethodConnect :: string where "MethodConnect = ''CONNECT''"
definition MethodOptions :: string where "MethodOptions = ''OPTIONS''"
definition MethodTrace :: string where "MethodTrace = ''TRACE''"

definition StatusOK :: int where "StatusOK = 200"

text \<open>
  Of an \<^verbatim>\<open>http.Request\<close> the handler reads the method; the path stands for what the
  mux routes on.
\<close>

record Request =
  Method :: string
  URL_Path :: string

text \<open>
  The wrapped \<^verbatim>\<open>http.ResponseWriter\<close> is the list of calls forwarded to it so far.
  \<^verbatim>\<open>responseWriterWithStatus\<close> embeds it and remembers the status code.
\<close>

datatype writer_call = CallWriteHeader int | CallWrite string

record responseWriterWithStatus =
  ResponseWriter :: "writer_call list"
  code :: int

definition WriteHeader :: "int \<Rightarrow> responseWriterWithStatus \<Rightarrow> responseWriterWithStatus" where
  "WriteHeader c r =
     (let r1 = r\<lparr>code := c\<rparr>
      in r1\<lparr>ResponseWriter := ResponseWriter r1 @ [CallWriteHeader c]\<rparr>)"

definition Write :: "string \<Rightarrow> responseWriterWithStatus \<Rightarrow> responseWriterWithStatus" where
  "Write body r =
     (let r1 = (if code r = 0 then r\<lparr>code := StatusOK\<rparr> else r)
      in r1\<lparr>ResponseWriter := ResponseWriter r1 @ [CallWrite body]\<rparr>)"

text \<open>
  A wrapped \<^verbatim>\<open>http.Handler\<close> is given by the calls it makes, in order, on the writer
  it is handed for a request, and by whether it panics after them instead of
  returning. \<open>Handler_ServeHTTP\<close> runs the calls on the status-tracking writer and
  passes the flag on.
\<close>

type_synonym Handler = "Request \<Rightarrow> writer_call list \<times> bool"

fun do_call :: "writer_call \<Rightarrow> responseWriterWithStatus \<Rightarrow> responseWriterWithStatus" where
  "do_call (CallWriteHeader c) r = WriteHeader c r"
| "do_call (CallWrite body) r = Write body r"

definition Handler_ServeHTTP ::
    "Handler \<Rightarrow> responseWriterWithStatus \<Rightarrow> Request \<Rightarrow> responseWriterWithStatus \<times> bool" where
  "Handler_ServeHTTP sub rwws r = (fold do_call (fst (sub r)) rwws, snd (sub r))"

subsection \<open>Decimal rendering of the status code\<close>

text \<open>\<^verbatim>\<open>strconv.Itoa\<close>: base 10, a minus sign for negative numbers.\<close>

definition digit :: "nat \<Rightarrow> char" where
  "digit d = ''0123456789'' ! d"

fun Itoa_nat :: "nat \<Rightarrow> string" where
  "Itoa_nat n = (if n < 10 then [digit n] else Itoa_nat (n div 10) @ [digit (n mod 10)])"

declare Itoa_nat.simps [simp del]

definition Itoa :: "int \<Rightarrow> string" where
  "Itoa i = (if i < 0 then CHR ''-'' # Itoa_nat (nat (- i)) else Itoa_nat (nat i))"

subsection \<open>Label values a collector accepts\<close>

text \<open>
  The Prometheus client checks every label value with \<^verbatim>\<open>utf8.ValidString\<close> and
  \<^verbatim>\<open>WithLabelValues\<close> and \<^verbatim>\<open>With\<close> panic when the check fails. A Go string is a
  sequence of bytes. A byte below \<^verbatim>\<open>0x80\<close> stands for itself; a lead byte fixes the
  length of its sequence (2, 3 or 4 bytes) and the range of the byte that follows it;
  every further byte lies in \<^verbatim>\<open>0x80..0xBF\<close>; the bytes \<^verbatim>\<open>0x80..0xC1\<close> and
  \<^verbatim>\<open>0xF5..0xFF\<close> start no sequence.
\<close>

definition in_range :: "nat \<Rightarrow> nat \<Rightarrow> char \<Rightarrow> bool" where
  "in_range lo hi c = (lo \<le> (of_char c :: nat) \<and> (of_char c :: nat) \<le> hi)"

text \<open>
  For a lead byte: the length of the sequence and the range accepted for its second
  byte; \<open>None\<close> for a byte that starts no sequence.
\<close>

definition first :: "nat \<Rightarrow> (nat \<times> nat \<times> nat) option" where
  "first b =
     (if 0xC2 \<le> b \<and> b \<le> 0xDF then Some (2, 0x80, 0xBF)
      else if b = 0xE0 then Some (3, 0xA0, 0xBF)
      else if 0xE1 \<le> b \<and> b \<le> 0xEC then Some (3, 0x80, 0xBF)
      else if b = 0xED then Some (3, 0x80, 0x9F)
      else if 0xEE \<le> b \<and> b \<le> 0xEF then Some (3, 0x80, 0xBF)
      else if b = 0xF0 then Some (4, 0x90, 0xBF)
      else if 0xF1 \<le> b \<and> b \<le> 0xF3 then Some (4, 0x80, 0xBF)
      else if b = 0xF4 then Some (4, 0x80, 0x8F)
      else None)"

fun utf8_ValidString :: "string \<Rightarrow> bool" where
  "utf8_ValidString [] = True"
| "utf8_ValidString (c # cs) =
     (if (of_char c :: nat) < 0x80 then utf8_ValidString cs
      else
        (case first (of_char c) of
           None \<Rightarrow> False
         | Some (n, lo, hi) \<Rightarrow>
             (case cs of
                [] \<Rightarrow> False
              | c1 # cs1 \<Rightarrow>
                  if \<not> in_range lo hi c1 then False
                  else if n = 2 then utf8_ValidString cs1
                  else
                    (case cs1 of
                       [] \<Rightarrow> False
                     | c2 # cs2 \<Rightarrow>
                         if \<not> in_range 0x80 0xBF c2 then False
                         else if n = 3 then utf8_ValidString cs2
                         else
                           (case cs2 of
                              [] \<Rightarrow> False
                            | c3 # cs3 \<Rightarrow>
                                if \<not> in_range 0x80 0xBF c3 then False
                                else utf8_ValidString cs3)))))"

subsection \<open>Metrics and the measured handler\<close>

text \<open>
  What a panic carries, and how a call ends.
\<close>

datatype panic_value =
  InvalidLabelValue string
| InconsistentLabelCardinality
| HandlerPanic

datatype outcome = Returned | Panicked panic_value

text \<open>
  The two collectors of \<^verbatim>\<open>MeasuredHandler\<close>, each kept as the list of the calls made
  on its children, oldest first: for the gauge \<^verbatim>\<open>in_flight_requests\<close> the endpoint
  label of the child and whether it was incremented or decremented; for the histogram
  \<^verbatim>\<open>response_time\<close> the labels of the child (\<^verbatim>\<open>prometheus.Labels\<close>, a
  \<^verbatim>\<open>map[string]string\<close>, as the list of its entries) and the \<^verbatim>\<open>time.Duration\<close>
  (an \<^verbatim>\<open>int64\<close> of nanoseconds) whose \<^verbatim>\<open>Seconds()\<close> is observed.
\<close>

datatype gauge_call = GaugeInc | GaugeDec

record Metrics =
  inFlightRequestsGauge :: "(string \<times> gauge_call) list"
  stat :: "((string \<times> string) list \<times> 64 word) list"

text \<open>
  \<^verbatim>\<open>GaugeVec.WithLabelValues\<close> with the one value of the label \<^verbatim>\<open>endpoint\<close>: the
  child for that value, or a panic when the value is not valid UTF-8.
\<close>

definition WithLabelValues :: "string \<Rightarrow> panic_value + string" where
  "WithLabelValues lv =
     (if utf8_ValidString lv then Inr lv else Inl (InvalidLabelValue lv))"

text \<open>
  \<^verbatim>\<open>HistogramVec.With\<close> on the vector that \<^verbatim>\<open>New\<close> registers with the label names
  \<^verbatim>\<open>endpoint\<close>, \<^verbatim>\<open>method\<close> and \<^verbatim>\<open>code\<close>: it panics unless the labels are exactly
  these three and every value is valid UTF-8.
\<close>

definition With :: "(string \<times> string) list \<Rightarrow> panic_value + (string \<times> string) list" where
  "With labels =
     (if length labels \<noteq> 3 \<or> map_of labels ''endpoint'' = None
         \<or> map_of labels ''method'' = None \<or> map_of labels ''code'' = None
      then Inl InconsistentLabelCardinality
      else
        (case filter (\<lambda>(name, val). \<not> utf8_ValidString val) labels of
           [] \<Rightarrow> Inr labels
         | (name, val) # _ \<Rightarrow> Inl (InvalidLabelValue val)))"

definition Inc :: "string \<Rightarrow> Metrics \<Rightarrow> Metrics" where
  "Inc child mx = mx\<lparr>inFlightRequestsGauge := inFlightRequestsGauge mx @ [(child, GaugeInc)]\<rparr>"

definition Dec :: "string \<Rightarrow> Metrics \<Rightarrow> Metrics" where
  "Dec child mx = mx\<lparr>inFlightRequestsGauge := inFlightRequestsGauge mx @ [(child, GaugeDec)]\<rparr>"

definition Observe :: "(string \<times> string) list \<Rightarrow> 64 word \<Rightarrow> Metrics \<Rightarrow> Metrics" where
  "Observe labels d mx = mx\<lparr>stat := stat mx @ [(labels, d)]\<rparr>"

text \<open>
  \<^verbatim>\<open>clock.Clock\<close> is an interface: \<open>Now\<close> is what its \<^verbatim>\<open>Now()\<close> returns when the
  request comes in, \<open>Since\<close> what its \<^verbatim>\<open>Since(t)\<close> returns when the deferred
  observation runs. \<^verbatim>\<open>serveMux.Handler\<close> maps a request to the handler that serves
  it and the pattern it matched.
\<close>

record Clock =
  Now :: Time
  Since :: "Time \<Rightarrow> 64 word"

record MeasuredHandler =
  serveMux :: "Request \<Rightarrow> Handler \<times> string"
  clk :: Clock

text \<open>
  \<^verbatim>\<open>MeasuredHandler.ServeHTTP\<close>. \<open>w\<close> is the writer it is given and \<open>mx\<close> the
  metrics before the request; the result is how the call ends, the wrapped writer and
  the metrics after it.

  The increment of the gauge (source line 142) panics on a pattern that is not valid
  UTF-8; nothing is deferred yet, so nothing more happens. The \<^verbatim>\<open>defer\<close> of line 143
  evaluates \<^verbatim>\<open>WithLabelValues(pattern)\<close> at once and postpones only the \<^verbatim>\<open>Dec()\<close>.
  The deferred calls run in reverse order, also when the wrapped handler panics:
  first the observation, then the decrement. A panic of \<^verbatim>\<open>With\<close> inside the deferred
  function takes the place of the handler's.
\<close>

definition ServeHTTP ::
    "MeasuredHandler \<Rightarrow> writer_call list \<Rightarrow> Request \<Rightarrow> Metrics
       \<Rightarrow> outcome \<times> writer_call list \<times> Metrics" where
  "ServeHTTP h w r mx =
     (let begin = Now (clk h);
          rwws = \<lparr>ResponseWriter = w, code = 0\<rparr>;
          (subHandler, pattern) = serveMux h r
      in case WithLabelValues pattern of
           Inl p \<Rightarrow> (Panicked p, w, mx)
         | Inr g \<Rightarrow>
             (let mx1 = Inc g mx
              in case WithLabelValues pattern of
                   Inl p \<Rightarrow> (Panicked p, w, mx1)
                 | Inr g' \<Rightarrow>
                     (let method =
                            (if Method r = MethodGet \<or> Method r = MethodHead
                                \<or> Method r = MethodPost \<or> Method r = MethodPut
                                \<or> Method r = MethodPatch \<or> Method r = MethodDelete
                                \<or> Method r = MethodConnect \<or> Method r = MethodOptions
                                \<or> Method r = MethodTrace
                             then Method r
                             else ''unknown'');
                          (rwws1, handler_panicked) = Handler_ServeHTTP subHandler rwws r;
                          out1 = (if handler_panicked then Panicked HandlerPanic else Returned);
                          (out2, mx2) =
                            (case With [(''endpoint'', pattern), (''method'', method),
                                        (''code'', Itoa (code rwws1))] of
                               Inl p \<Rightarrow> (Panicked p, mx1)
                             | Inr labels \<Rightarrow>
                                 (out1, Observe labels (Since (clk h) begin) mx1));
                          mx3 = Dec g' mx2
                      in (out2, ResponseWriter rwws1, mx3))))"

section \<open>Properties of the in-memory source\<close>

subsection \<open>Basic facts about single calls\<close>

lemma m_after_Set: "m (snd (inmem_Set ctx k tat s)) = (m s)(k \<mapsto> tat)"
  by (simp add: inmem_Set_def)

lemma m_after_Delete: "m (snd (inmem_Delete ctx k s)) = (m s)(k := None)"
  by (simp add: inmem_Delete_def)

lemma store_after_Get: "snd (inmem_Get ctx k s) = s"
  by (simp add: inmem_Get_def split: option.split)

lemma Get_absent: "m s k = None \<Longrightarrow> fst (inmem_Get ctx k s) = (zero_Time, Some ErrBucketNotFound)"
  by (simp add: inmem_Get_def)

lemma absent_after_call:
  "m s k = None \<Longrightarrow> \<not> is_Set_of k c \<Longrightarrow> m (after_call c s) k = None"
  by (cases c) (simp_all add: m_after_Set m_after_Delete store_after_Get)

lemma absent_after_calls:
  "m s k = None \<Longrightarrow> list_all (\<lambda>c. \<not> is_Set_of k c) cs \<Longrightarrow> m (after_calls cs s) k = None"
proof (induction cs arbitrary: s)
  case Nil
  then show ?case by simp
next
  case (Cons c cs)
  from Cons.prems have "m (after_call c s) k = None"
    by (simp add: absent_after_call)
  moreover from Cons.prems have "list_all (\<lambda>c. \<not> is_Set_of k c) cs"
    by simp
  ultimately show ?case
    using Cons.IH by simp
qed

subsection \<open>The claims\<close>

text \<open>
  C1. For every key and timestamps \<open>t1\<close>, \<open>t2\<close>, \<^verbatim>\<open>Set(k, t1)\<close> then \<^verbatim>\<open>Set(k, t2)\<close> then
  \<^verbatim>\<open>Get(k)\<close> returns \<open>t2\<close> with a nil error, whatever the store held before and
  whatever the contexts: the second Set replaces the value of the first.
\<close>

theorem Set_Set_Get_last_write_wins:
  "fst (inmem_Get c3 k (snd (inmem_Set c2 k t2 (snd (inmem_Set c1 k t1 s))))) = (t2, None)
   \<and> m (snd (inmem_Set c2 k t2 (snd (inmem_Set c1 k t1 s)))) k = Some t2"
  by (simp add: inmem_Set_def inmem_Get_def)

text \<open>
  C2. A key on which no Set was ever called gives, on Get, the zero time together with
  \<^verbatim>\<open>ErrBucketNotFound\<close>, never a nil error: this holds after any history of calls
  on a new store that holds no \<^verbatim>\<open>Set\<close> of that key. The same holds when the key's
  entry was deleted, in whatever store, and no \<^verbatim>\<open>Set\<close> of the key followed.
\<close>

theorem Get_never_Set_or_deleted_NotFound:
  assumes "list_all (\<lambda>c. \<not> is_Set_of k c) cs"
  shows "fst (inmem_Get ctx k (after_calls cs newInmem)) = (zero_Time, Some ErrBucketNotFound)
       \<and> fst (inmem_Get ctx k (after_calls cs (snd (inmem_Delete ctx' k s))))
           = (zero_Time, Some ErrBucketNotFound)"
proof
  have "m newInmem k = None"
    by (simp add: newInmem_def)
  then have "m (after_calls cs newInmem) k = None"
    using assms by (rule absent_after_calls)
  then show "fst (inmem_Get ctx k (after_calls cs newInmem)) = (zero_Time, Some ErrBucketNotFound)"
    by (rule Get_absent)
next
  have "m (snd (inmem_Delete ctx' k s)) k = None"
    by (simp add: m_after_Delete)
  then have "m (after_calls cs (snd (inmem_Delete ctx' k s))) k = None"
    using assms by (rule absent_after_calls)
  then show "fst (inmem_Get ctx k (after_calls cs (snd (inmem_Delete ctx' k s))))
      = (zero_Time, Some ErrBucketNotFound)"
    by (rule Get_absent)
qed

theorem Get_never_Set_or_deleted_NotFound_witness:
  "list_all (\<lambda>c. \<not> is_Set_of ''login:alice'' c)
     [CallSet Background ''login:bob'' \<lparr>wall = 0, ext = 60, loc = None\<rparr>,
      CallGet Background ''login:alice'',
      CallDelete Cancelled ''login:bob'']
   \<and> fst (inmem_Get Background ''login:alice''
        (after_calls
          [CallSet Background ''login:bob'' \<lparr>wall = 0, ext = 60, loc = None\<rparr>,
           CallGet Background ''login:alice'',
           CallDelete Cancelled ''login:bob'']
          newInmem))
       = (zero_Time, Some ErrBucketNotFound)
   \<and> fst (inmem_Get Background ''login:alice''
        (after_calls
          [CallSet Background ''login:bob'' \<lparr>wall = 0, ext = 60, loc = None\<rparr>,
           CallGet Background ''login:alice'',
           CallDelete Cancelled ''login:bob'']
          (snd (inmem_Delete Background ''login:alice''
             \<lparr>m = [''login:alice'' \<mapsto> \<lparr>wall = 0, ext = 5, loc = None\<rparr>]\<rparr>))))
       = (zero_Time, Some ErrBucketNotFound)"
proof -
  have h: "list_all (\<lambda>c. \<not> is_Set_of ''login:alice'' c)
     [CallSet Background ''login:bob'' \<lparr>wall = 0, ext = 60, loc = None\<rparr>,
      CallGet Background ''login:alice'',
      CallDelete Cancelled ''login:bob'']"
    by simp
  from h Get_never_Set_or_deleted_NotFound [OF h] show ?thesis
    by blast
qed

text \<open>
  C3. For every key and timestamp, \<^verbatim>\<open>Set(k, t)\<close> then \<^verbatim>\<open>Delete(k)\<close> then \<^verbatim>\<open>Get(k)\<close>
  makes Get return \<^verbatim>\<open>ErrBucketNotFound\<close>, and the key is gone from the map.
\<close>

theorem Set_Delete_Get_NotFound:
  "fst (inmem_Get c3 k (snd (inmem_Delete c2 k (snd (inmem_Set c1 k t s)))))
     = (zero_Time, Some ErrBucketNotFound)
   \<and> m (snd (inmem_Delete c2 k (snd (inmem_Set c1 k t s)))) k = None"
  by (simp add: inmem_Set_def inmem_Delete_def inmem_Get_def)

text \<open>
  C4. Deleting a key that the store does not hold returns a nil error and leaves the
  store as it was.
\<close>

theorem Delete_absent_succeeds:
  "m s k = None \<Longrightarrow> inmem_Delete ctx k s = (None, s)"
proof -
  assume "m s k = None"
  then have "(m s)(k := None) = m s"
    by (simp add: fun_upd_idem)
  then show "inmem_Delete ctx k s = (None, s)"
    by (simp add: inmem_Delete_def)
qed

theorem Delete_absent_succeeds_witness:
  "m newInmem ''login:alice'' = None
   \<and> inmem_Delete Background ''login:alice'' newInmem = (None, newInmem)"
proof -
  have h: "m newInmem ''login:alice'' = None"
    by (simp add: newInmem_def)
  from h Delete_absent_succeeds [OF h] show ?thesis
    by blast
qed

text \<open>
  C5. Whenever Get finds no stored TAT for its key, the error it returns is the
  package-level value \<^verbatim>\<open>ErrBucketNotFound\<close>: the same error for any two such failures
  (whatever the keys, stores and contexts), and never a value that a context's
  \<^verbatim>\<open>Err()\<close> reports, so a caller can tell it apart by comparison.
\<close>

theorem Get_absent_returns_sentinel:
  assumes "m s k = None" and "m s' k' = None"
  shows "snd (fst (inmem_Get ctx k s)) = Some ErrBucketNotFound
       \<and> snd (fst (inmem_Get ctx k s)) = snd (fst (inmem_Get ctx' k' s'))
       \<and> snd (fst (inmem_Get ctx k s)) \<noteq> Err ctx''"
proof -
  from assms(1) have a: "snd (fst (inmem_Get ctx k s)) = Some ErrBucketNotFound"
    by (simp add: Get_absent)
  from assms(2) have b: "snd (fst (inmem_Get ctx' k' s')) = Some ErrBucketNotFound"
    by (simp add: Get_absent)
  have "Err ctx'' \<noteq> Some ErrBucketNotFound"
    by (cases ctx'') simp_all
  with a b show ?thesis
    by simp
qed

theorem Get_absent_returns_sentinel_witness:
  "m newInmem ''login:alice'' = None
   \<and> m \<lparr>m = [''login:alice'' \<mapsto> zero_Time]\<rparr> ''login:bob'' = None
   \<and> snd (fst (inmem_Get Background ''login:alice'' newInmem)) = Some ErrBucketNotFound
   \<and> snd (fst (inmem_Get Background ''login:alice'' newInmem))
       = snd (fst (inmem_Get Expired ''login:bob'' \<lparr>m = [''login:alice'' \<mapsto> zero_Time]\<rparr>))
   \<and> snd (fst (inmem_Get Background ''login:alice'' newInmem)) \<noteq> Err Cancelled"
proof -
  have h1: "m newInmem ''login:alice'' = None"
    by (simp add: newInmem_def)
  have h2: "m \<lparr>m = [''login:alice'' \<mapsto> zero_Time]\<rparr> ''login:bob'' = None"
    by simp
  from h1 h2 Get_absent_returns_sentinel [OF h1 h2, of Background Expired Cancelled]
  show ?thesis
    by blast
qed

text \<open>
  C6, as the code has it. Every method takes a context and ignores it: the values
  returned and the store left behind are those of the same call under a live context,
  and the error returned is never the one the context reports when it is cancelled or
  past its deadline.
\<close>

theorem context_is_ignored:
  "inmem_Set ctx k tat s = inmem_Set Background k tat s
   \<and> inmem_Get ctx k s = inmem_Get Background k s
   \<and> inmem_Delete ctx k s = inmem_Delete Background k s
   \<and> fst (inmem_Set Cancelled k tat s) \<noteq> Err Cancelled
   \<and> fst (inmem_Set Expired k tat s) \<noteq> Err Expired
   \<and> snd (fst (inmem_Get Cancelled k s)) \<noteq> Err Cancelled
   \<and> snd (fst (inmem_Get Expired k s)) \<noteq> Err Expired
   \<and> fst (inmem_Delete Cancelled k s) \<noteq> Err Cancelled
   \<and> fst (inmem_Delete Expired k s) \<noteq> Err Expired"
  by (simp add: inmem_Set_def inmem_Get_def inmem_Delete_def split: option.split)

text \<open>
  C6 as the specification states it fails: under a context that is already
  cancelled, Set returns a nil error and stores the value, Get returns the stored value
  with a nil error, and Delete returns a nil error and removes the entry.
\<close>

theorem cancelled_context_counterexample:
  "Err Cancelled = Some context_Canceled
   \<and> inmem_Set Cancelled ''login:alice'' \<lparr>wall = 0, ext = 60, loc = None\<rparr> newInmem
       = (None, \<lparr>m = [''login:alice'' \<mapsto> \<lparr>wall = 0, ext = 60, loc = None\<rparr>]\<rparr>)
   \<and> inmem_Get Cancelled ''login:alice''
        \<lparr>m = [''login:alice'' \<mapsto> \<lparr>wall = 0, ext = 60, loc = None\<rparr>]\<rparr>
       = ((\<lparr>wall = 0, ext = 60, loc = None\<rparr>, None),
          \<lparr>m = [''login:alice'' \<mapsto> \<lparr>wall = 0, ext = 60, loc = None\<rparr>]\<rparr>)
   \<and> inmem_Delete Cancelled ''login:alice''
        \<lparr>m = [''login:alice'' \<mapsto> \<lparr>wall = 0, ext = 60, loc = None\<rparr>]\<rparr>
       = (None, \<lparr>m = Map.empty\<rparr>)"
  by (simp add: inmem_Set_def inmem_Get_def inmem_Delete_def newInmem_def)

text \<open>
  C9. Set and Delete return a nil error for every context, key, timestamp and store;
  the error of Get is nil when the key is stored and \<^verbatim>\<open>ErrBucketNotFound\<close> when it is
  not, so no other error ever leaves the in-memory source.
\<close>

theorem inmem_only_error_is_NotFound:
  "fst (inmem_Set ctx k tat s) = None
   \<and> fst (inmem_Delete ctx k s) = None
   \<and> snd (fst (inmem_Get ctx k s))
       = (case m s k of None \<Rightarrow> Some ErrBucketNotFound | Some tat' \<Rightarrow> None)
   \<and> snd (fst (inmem_Get ctx k s)) \<in> {None, Some ErrBucketNotFound}"
  by (simp add: inmem_Set_def inmem_Get_def inmem_Delete_def split: option.split)

text \<open>
  C10. A call touches its own key only: for distinct keys \<open>k\<close> and \<open>k'\<close>, what the
  store holds for \<open>k'\<close> is the same after \<^verbatim>\<open>Set(k, t)\<close> and after \<^verbatim>\<open>Delete(k)\<close> as
  before, and \<^verbatim>\<open>Get(k)\<close> leaves the whole store as it was.
\<close>

theorem calls_touch_own_key_only:
  assumes "k \<noteq> k'"
  shows "m (snd (inmem_Set ctx k tat s)) k' = m s k'
       \<and> m (snd (inmem_Delete ctx k s)) k' = m s k'
       \<and> snd (inmem_Get ctx k s) = s"
  using assms by (simp add: m_after_Set m_after_Delete store_after_Get)

theorem calls_touch_own_key_only_witness:
  "''login:alice'' \<noteq> ''login:bob''
   \<and> m (snd (inmem_Set Background ''login:alice'' zero_Time
          \<lparr>m = [''login:bob'' \<mapsto> \<lparr>wall = 0, ext = 60, loc = None\<rparr>]\<rparr>)) ''login:bob''
       = Some \<lparr>wall = 0, ext = 60, loc = None\<rparr>
   \<and> m (snd (inmem_Delete Background ''login:alice''
          \<lparr>m = [''login:bob'' \<mapsto> \<lparr>wall = 0, ext = 60, loc = None\<rparr>]\<rparr>)) ''login:bob''
       = Some \<lparr>wall = 0, ext = 60, loc = None\<rparr>
   \<and> snd (inmem_Get Background ''login:alice''
          \<lparr>m = [''login:bob'' \<mapsto> \<lparr>wall = 0, ext = 60, loc = None\<rparr>]\<rparr>)
       = \<lparr>m = [''login:bob'' \<mapsto> \<lparr>wall = 0, ext = 60, loc = None\<rparr>]\<rparr>"
proof -
  have h: "''login:alice'' \<noteq> ''login:bob''"
    by simp
  from h calls_touch_own_key_only [OF h, of Background zero_Time
      "\<lparr>m = [''login:bob'' \<mapsto> \<lparr>wall = 0, ext = 60, loc = None\<rparr>]\<rparr>"]
  show ?thesis
    by simp
qed

section \<open>Properties of the measured handler\<close>

subsection \<open>Label values built by the handler are valid\<close>

lemma ascii_ValidString:
  "list_all (\<lambda>c. (of_char c :: nat) < 0x80) s \<Longrightarrow> utf8_ValidString s"
  by (induction s) simp_all

lemma digit_ascii: "d < 10 \<Longrightarrow> (of_char (digit d) :: nat) < 0x80"
proof -
  assume "d < 10"
  then have "d \<in> {0, 1, 2, 3, 4, 5, 6, 7, 8, 9}"
    by auto
  then show ?thesis
    by (auto simp: digit_def)
qed

lemma Itoa_nat_ascii: "list_all (\<lambda>c. (of_char c :: nat) < 0x80) (Itoa_nat n)"
proof (induction n rule: Itoa_nat.induct)
  case (1 n)
  show ?case
  proof (cases "n < 10")
    case True
    then show ?thesis
      by (simp add: Itoa_nat.simps [of n] digit_ascii)
  next
    case False
    with 1 have "list_all (\<lambda>c. (of_char c :: nat) < 0x80) (Itoa_nat (n div 10))"
      by simp
    moreover have "(of_char (digit (n mod 10)) :: nat) < 0x80"
      by (rule digit_ascii) simp
    ultimately show ?thesis
      using False by (simp add: Itoa_nat.simps [of n])
  qed
qed

lemma Itoa_ValidString: "utf8_ValidString (Itoa i)"
proof -
  have "list_all (\<lambda>c. (of_char c :: nat) < 0x80) (Itoa i)"
    by (simp add: Itoa_def Itoa_nat_ascii)
  then show ?thesis
    by (rule ascii_ValidString)
qed

lemmas Method_defs = MethodGet_def MethodHead_def MethodPost_def MethodPut_def
  MethodPatch_def MethodDelete_def MethodConnect_def MethodOptions_def MethodTrace_def

lemma method_ValidString:
  "utf8_ValidString
     (if x = MethodGet \<or> x = MethodHead \<or> x = MethodPost \<or> x = MethodPut
         \<or> x = MethodPatch \<or> x = MethodDelete \<or> x = MethodConnect \<or> x = MethodOptions
         \<or> x = MethodTrace
      then x
      else ''unknown'')"
  by (auto simp: Method_defs)

lemma With_valid:
  assumes "utf8_ValidString pattern" and "utf8_ValidString method"
  shows "With [(''endpoint'', pattern), (''method'', method), (''code'', Itoa c)]
       = Inr [(''endpoint'', pattern), (''method'', method), (''code'', Itoa c)]"
  using assms by (simp add: With_def Itoa_ValidString)

lemma stat_Inc: "stat (Inc child mx) = stat mx"
  by (simp add: Inc_def)

lemma stat_Dec: "stat (Dec child mx) = stat mx"
  by (simp add: Dec_def)

lemma stat_Observe: "stat (Observe labels d mx) = stat mx @ [(labels, d)]"
  by (simp add: Observe_def)

subsection \<open>How a request ends\<close>

text \<open>
  The call panics on a pattern that is not valid UTF-8, with the writer and the metrics
  untouched. On any other pattern it ends as the wrapped handler does; the deferred
  \<^verbatim>\<open>With\<close> never panics, since the pattern was checked before and the other two label
  values are built by the handler itself.
\<close>

lemma ServeHTTP_invalid_pattern:
  assumes "\<not> utf8_ValidString (snd (serveMux h r))"
  shows "ServeHTTP h w r mx = (Panicked (InvalidLabelValue (snd (serveMux h r))), w, mx)"
proof -
  obtain subHandler pattern where sp: "serveMux h r = (subHandler, pattern)"
    by (cases "serveMux h r")
  with assms show ?thesis
    by (simp add: ServeHTTP_def WithLabelValues_def)
qed

lemma ServeHTTP_valid_pattern_outcome:
  assumes "utf8_ValidString (snd (serveMux h r))"
  shows "fst (ServeHTTP h w r mx)
       = (if snd (fst (serveMux h r) r) then Panicked HandlerPanic else Returned)"
proof -
  obtain subHandler pattern where sp: "serveMux h r = (subHandler, pattern)"
    by (cases "serveMux h r")
  with assms show ?thesis
    by (simp add: ServeHTTP_def Let_def WithLabelValues_def With_valid method_ValidString
        Handler_ServeHTTP_def)
qed

subsection \<open>Requests traced through the handler\<close>

text \<open>
  A \<^verbatim>\<open>PATCH\<close> whose handler answers 404 is observed under its own method. A
  lower-case \<^verbatim>\<open>get\<close> is observed as \<^verbatim>\<open>unknown\<close>: the comparison is on the exact
  string. A handler that writes a body and then panics is still observed, with code
  200. A pattern ending in the byte \<^verbatim>\<open>0xFF\<close> makes the call panic before anything is
  recorded.
\<close>

lemma ServeHTTP_PATCH_example:
  "ServeHTTP
     \<lparr>serveMux = (\<lambda>r. ((\<lambda>r. ([CallWriteHeader 404, CallWrite ''no''], False)), ''/x'')),
      clk = \<lparr>Now = zero_Time, Since = (\<lambda>t. 15)\<rparr>\<rparr>
     [] \<lparr>Method = ''PATCH'', URL_Path = ''/x''\<rparr> \<lparr>inFlightRequestsGauge = [], stat = []\<rparr>
   = (Returned, [CallWriteHeader 404, CallWrite ''no''],
      \<lparr>inFlightRequestsGauge = [(''/x'', GaugeInc), (''/x'', GaugeDec)],
       stat = [([(''endpoint'', ''/x''), (''method'', ''PATCH''), (''code'', ''404'')], 15)]\<rparr>)"
  by (simp add: ServeHTTP_def Handler_ServeHTTP_def Write_def WriteHeader_def StatusOK_def
      WithLabelValues_def With_def Inc_def Dec_def Observe_def Itoa_def Itoa_nat.simps
      digit_def Method_defs)

lemma ServeHTTP_lower_case_example:
  "ServeHTTP
     \<lparr>serveMux = (\<lambda>r. ((\<lambda>r. ([CallWriteHeader 404, CallWrite ''no''], False)), ''/x'')),
      clk = \<lparr>Now = zero_Time, Since = (\<lambda>t. 15)\<rparr>\<rparr>
     [] \<lparr>Method = ''get'', URL_Path = ''/x''\<rparr> \<lparr>inFlightRequestsGauge = [], stat = []\<rparr>
   = (Returned, [CallWriteHeader 404, CallWrite ''no''],
      \<lparr>inFlightRequestsGauge = [(''/x'', GaugeInc), (''/x'', GaugeDec)],
       stat = [([(''endpoint'', ''/x''), (''method'', ''unknown''), (''code'', ''404'')], 15)]\<rparr>)"
  by (simp add: ServeHTTP_def Handler_ServeHTTP_def Write_def WriteHeader_def StatusOK_def
      WithLabelValues_def With_def Inc_def Dec_def Observe_def Itoa_def Itoa_nat.simps
      digit_def Method_defs)

lemma ServeHTTP_handler_panic_example:
  "ServeHTTP
     \<lparr>serveMux = (\<lambda>r. ((\<lambda>r. ([CallWrite ''ok''], True)), ''/x'')),
      clk = \<lparr>Now = zero_Time, Since = (\<lambda>t. 15)\<rparr>\<rparr>
     [] \<lparr>Method = ''GET'', URL_Path = ''/x''\<rparr> \<lparr>inFlightRequestsGauge = [], stat = []\<rparr>
   = (Panicked HandlerPanic, [CallWrite ''ok''],
      \<lparr>inFlightRequestsGauge = [(''/x'', GaugeInc), (''/x'', GaugeDec)],
       stat = [([(''endpoint'', ''/x''), (''method'', ''GET''), (''code'', ''200'')], 15)]\<rparr>)"
  by (simp add: ServeHTTP_def Handler_ServeHTTP_def Write_def WriteHeader_def StatusOK_def
      WithLabelValues_def With_def Inc_def Dec_def Observe_def Itoa_def Itoa_nat.simps
      digit_def Method_defs)

lemma ServeHTTP_invalid_pattern_example:
  "ServeHTTP
     \<lparr>serveMux = (\<lambda>r. ((\<lambda>r. ([CallWrite ''ok''], False)), [CHR ''/'', CHR 0xFF])),
      clk = \<lparr>Now = zero_Time, Since = (\<lambda>t. 15)\<rparr>\<rparr>
     [] \<lparr>Method = ''GET'', URL_Path = ''/x''\<rparr> \<lparr>inFlightRequestsGauge = [], stat = []\<rparr>
   = (Panicked (InvalidLabelValue [CHR ''/'', CHR 0xFF]), [],
      \<lparr>inFlightRequestsGauge = [], stat = []\<rparr>)"
  by (simp add: ServeHTTP_def WithLabelValues_def first_def)

subsection \<open>The method label\<close>

text \<open>
  C8. Every observation that serving a request adds to the histogram carries as its
  \<^verbatim>\<open>method\<close> label the request's method when that is one of GET, HEAD, POST, PUT,
  PATCH, DELETE, CONNECT, OPTIONS and TRACE, and the label \<^verbatim>\<open>unknown\<close> for every
  other method string. Exactly one observation is added when the pattern of the
  request is valid UTF-8, whether the wrapped handler returns or panics; when the
  pattern is not, the call panics at the gauge and adds none.
\<close>

theorem ServeHTTP_method_label:
  "map (\<lambda>(labels, d). map_of labels ''method'') (stat (snd (snd (ServeHTTP h w r mx))))
     = map (\<lambda>(labels, d). map_of labels ''method'') (stat mx)
       @ (if utf8_ValidString (snd (serveMux h r))
          then [Some (if Method r \<in> {''GET'', ''HEAD'', ''POST'', ''PUT'', ''PATCH'', ''DELETE'',
                                     ''CONNECT'', ''OPTIONS'', ''TRACE''}
                      then Method r
                      else ''unknown'')]
          else [])"
proof -
  obtain subHandler pattern where sp: "serveMux h r = (subHandler, pattern)"
    by (cases "serveMux h r")
  obtain rwws1 hp where hs:
    "Handler_ServeHTTP subHandler \<lparr>ResponseWriter = w, code = 0\<rparr> r = (rwws1, hp)"
    by (cases "Handler_ServeHTTP subHandler \<lparr>ResponseWriter = w, code = 0\<rparr> r")
  show ?thesis
  proof (cases "utf8_ValidString pattern")
    case False
    then show ?thesis
      by (simp add: ServeHTTP_def sp WithLabelValues_def)
  next
    case True
    then show ?thesis
      by (simp add: ServeHTTP_def Let_def sp hs WithLabelValues_def With_valid
          method_ValidString stat_Inc stat_Dec stat_Observe Method_defs)
  qed
qed

end
